theory Spec2Isabelle
  imports Complex_Main
begin

section \<open>JavaScript numbers\<close>

text \<open>
  A JavaScript number is a binary64 value. The embedding keeps the three kinds of
  non-finite value and takes a finite value as the exact real it denotes: rounding
  to binary64, overflow to Infinity and the sign of zero are left out (a zero
  divisor counts as +0). Every arithmetic operator of the source is translated to
  the operation below of the same name, so that NaN and the infinities travel
  through a computation as they do in the program.
\<close>

datatype jsnum = Fin real | PInf | NInf | NaN

fun js_neg :: "jsnum \<Rightarrow> jsnum" where
  "js_neg (Fin x) = Fin (- x)"
| "js_neg PInf = NInf"
| "js_neg NInf = PInf"
| "js_neg NaN = NaN"

fun js_add :: "jsnum \<Rightarrow> jsnum \<Rightarrow> jsnum" where
  "js_add (Fin x) (Fin y) = Fin (x + y)"
| "js_add (Fin x) PInf = PInf"
| "js_add (Fin x) NInf = NInf"
| "js_add PInf (Fin y) = PInf"
| "js_add PInf PInf = PInf"
| "js_add PInf NInf = NaN"
| "js_add NInf (Fin y) = NInf"
| "js_add NInf PInf = NaN"
| "js_add NInf NInf = NInf"
| "js_add NaN b = NaN"
| "js_add a NaN = NaN"

definition js_sub :: "jsnum \<Rightarrow> jsnum \<Rightarrow> jsnum" where
  "js_sub a b = js_add a (js_neg b)"

text \<open>The infinity with the sign of a nonzero real; \<open>Infinity * 0\<close> is NaN.\<close>

definition signed_inf :: "real \<Rightarrow> jsnum" where
  "signed_inf x = (if x = 0 then NaN else if 0 < x then PInf else NInf)"

fun js_mul :: "jsnum \<Rightarrow> jsnum \<Rightarrow> jsnum" where
  "js_mul (Fin x) (Fin y) = Fin (x * y)"
| "js_mul (Fin x) PInf = signed_inf x"
| "js_mul (Fin x) NInf = signed_inf (- x)"
| "js_mul PInf (Fin y) = signed_inf y"
| "js_mul PInf PInf = PInf"
| "js_mul PInf NInf = NInf"
| "js_mul NInf (Fin y) = signed_inf (- y)"
| "js_mul NInf PInf = NInf"
| "js_mul NInf NInf = PInf"
| "js_mul NaN b = NaN"
| "js_mul a NaN = NaN"

fun js_div :: "jsnum \<Rightarrow> jsnum \<Rightarrow> jsnum" where
  "js_div (Fin x) (Fin y) = (if y = 0 then signed_inf x else Fin (x / y))"
| "js_div (Fin x) PInf = Fin 0"
| "js_div (Fin x) NInf = Fin 0"
| "js_div PInf (Fin y) = (if 0 \<le> y then PInf else NInf)"
| "js_div NInf (Fin y) = (if 0 \<le> y then NInf else PInf)"
| "js_div PInf PInf = NaN"
| "js_div PInf NInf = NaN"
| "js_div NInf PInf = NaN"
| "js_div NInf NInf = NaN"
| "js_div NaN b = NaN"
| "js_div a NaN = NaN"

text \<open>\<open>Math.max\<close> of two numbers: NaN if either is NaN.\<close>

fun Math_max :: "jsnum \<Rightarrow> jsnum \<Rightarrow> jsnum" where
  "Math_max (Fin x) (Fin y) = Fin (max x y)"
| "Math_max (Fin x) PInf = PInf"
| "Math_max (Fin x) NInf = Fin x"
| "Math_max PInf (Fin y) = PInf"
| "Math_max PInf PInf = PInf"
| "Math_max PInf NInf = PInf"
| "Math_max NInf (Fin y) = Fin y"
| "Math_max NInf PInf = PInf"
| "Math_max NInf NInf = NInf"
| "Math_max NaN b = NaN"
| "Math_max a NaN = NaN"

fun Math_ceil :: "jsnum \<Rightarrow> jsnum" where
  "Math_ceil (Fin x) = Fin (of_int \<lceil>x\<rceil>)"
| "Math_ceil PInf = PInf"
| "Math_ceil NInf = NInf"
| "Math_ceil NaN = NaN"


text \<open>A number is negative when it compares below zero (\<open>v < 0\<close>); NaN does not.\<close>

fun js_negative :: "jsnum \<Rightarrow> bool" where
  "js_negative (Fin x) = (x < 0)"
| "js_negative NInf = True"
| "js_negative v = False"

section \<open>Strings and numbers\<close>

text \<open>
  A dimension field holds a number (the initial values, the example data) or a
  string (the text of an input field, the output of \<open>toFixed\<close>). Strings are
  ASCII.
\<close>

datatype jsval = Num jsnum | Str string

definition is_digit :: "char \<Rightarrow> bool" where
  "is_digit c = (c \<in> set ''0123456789'')"

definition digit_val :: "char \<Rightarrow> nat" where
  "digit_val c = of_char c - 48"

definition digit_char :: "nat \<Rightarrow> char" where
  "digit_char d = ''0123456789'' ! d"

definition digits_value :: "string \<Rightarrow> nat" where
  "digits_value ds = foldl (\<lambda>a c. 10 * a + digit_val c) 0 ds"

fun nat_to_digits :: "nat \<Rightarrow> string" where
  "nat_to_digits n =
     (if n < 10 then [digit_char n]
      else nat_to_digits (n div 10) @ [digit_char (n mod 10)])"

declare nat_to_digits.simps [simp del]

text \<open>The ASCII characters that \<open>parseFloat\<close> skips at the start of its input.\<close>

definition is_space :: "char \<Rightarrow> bool" where
  "is_space c = (c \<in> set [CHR '' '', CHR 0x09, CHR 0x0A, CHR 0x0B, CHR 0x0C, CHR 0x0D])"

definition scale10 :: "real \<Rightarrow> int \<Rightarrow> real" where
  "scale10 m e = (if 0 \<le> e then m * 10 ^ nat e else m / 10 ^ nat (- e))"

text \<open>
  The value of the exponent part at the start of a string: \<open>e\<close> or \<open>E\<close>, an
  optional sign and digits. Without a digit there is no exponent part and the
  value is 0.
\<close>

definition parse_exponent :: "string \<Rightarrow> int" where
  "parse_exponent s =
     (case s of
        [] \<Rightarrow> 0
      | c # t \<Rightarrow>
          if c = CHR ''e'' \<or> c = CHR ''E'' then
            (case t of
               [] \<Rightarrow> 0
             | d # u \<Rightarrow>
                 if d = CHR ''+'' then int (digits_value (takeWhile is_digit u))
                 else if d = CHR ''-'' then - int (digits_value (takeWhile is_digit u))
                 else int (digits_value (takeWhile is_digit t)))
          else 0)"

text \<open>
  The longest prefix that is an unsigned decimal literal: \<open>Infinity\<close>, digits
  with an optional fraction and exponent, or a fraction that starts with the
  point. NaN when there is no such prefix.
\<close>

definition parse_unsigned :: "string \<Rightarrow> jsnum" where
  "parse_unsigned s =
     (if take 8 s = ''Infinity'' then PInf
      else
        let ip = takeWhile is_digit s; r1 = dropWhile is_digit s in
        (case r1 of
           [] \<Rightarrow> if ip = [] then NaN else Fin (real (digits_value ip))
         | c # t \<Rightarrow>
             if c = CHR ''.'' then
               (let fp = takeWhile is_digit t; r2 = dropWhile is_digit t in
                if ip = [] \<and> fp = [] then NaN
                else Fin (scale10 (real (digits_value (ip @ fp)))
                                  (parse_exponent r2 - int (length fp))))
             else if ip = [] then NaN
             else Fin (scale10 (real (digits_value ip)) (parse_exponent r1))))"

definition parseFloat_str :: "string \<Rightarrow> jsnum" where
  "parseFloat_str s =
     (let t = dropWhile is_space s in
      case t of
        [] \<Rightarrow> NaN
      | c # u \<Rightarrow>
          if c = CHR ''-'' then js_neg (parse_unsigned u)
          else if c = CHR ''+'' then parse_unsigned u
          else parse_unsigned t)"

text \<open>
  \<open>parseFloat\<close> converts its argument to a string and parses that. The string of
  a number parses back to the number, so a number is returned as it is.
\<close>

fun parseFloat :: "jsval \<Rightarrow> jsnum" where
  "parseFloat (Num v) = v"
| "parseFloat (Str s) = parseFloat_str s"

text \<open>
  \<open>parseInt\<close> of an integer-valued number. The argument is first converted to a
  string: below \<open>10^21\<close> that is the integer's digits and the result is the integer;
  from \<open>10^21\<close> on the string is in exponent notation (\<open>1e+21\<close>, \<open>2.5e+22\<close>) and
  \<open>parseInt\<close> stops at the first character that is not a digit, so that the result
  is the leading digit.
\<close>

fun lead_digit :: "nat \<Rightarrow> nat" where
  "lead_digit n = (if n < 10 then n else lead_digit (n div 10))"

declare lead_digit.simps [simp del]

definition parseInt :: "int \<Rightarrow> jsnum" where
  "parseInt n =
     (if \<bar>n\<bar> < 10 ^ 21 then Fin (of_int n)
      else Fin (of_int (sgn n * int (lead_digit (nat \<bar>n\<bar>)))))"

text \<open>Truthiness of a number, for \<open>||\<close>: 0 and NaN are falsy.\<close>

fun js_truthy :: "jsnum \<Rightarrow> bool" where
  "js_truthy (Fin x) = (x \<noteq> 0)"
| "js_truthy NaN = False"
| "js_truthy v = True"

definition js_or :: "jsnum \<Rightarrow> jsnum \<Rightarrow> jsnum" where
  "js_or a b = (if js_truthy a then a else b)"

subsection \<open>Printing numbers\<close>

definition pad_zeros :: "nat \<Rightarrow> string \<Rightarrow> string" where
  "pad_zeros k m = replicate (k - length m) CHR ''0'' @ m"

text \<open>The digits of \<open>n\<close> with a point before the last \<open>f\<close> of them (\<open>0 < f\<close>).\<close>

definition fixed_point :: "nat \<Rightarrow> nat \<Rightarrow> string" where
  "fixed_point f n =
     (let m = pad_zeros (f + 1) (nat_to_digits n)
      in take (length m - f) m @ ''.'' @ drop (length m - f) m)"

definition is_int :: "real \<Rightarrow> bool" where
  "is_int x = (x = of_int \<lfloor>x\<rfloor>)"

fun find_places :: "nat \<Rightarrow> nat \<Rightarrow> real \<Rightarrow> nat option" where
  "find_places 0 k x = None"
| "find_places (Suc fuel) k x =
     (if is_int (x * 10 ^ k) then Some k else find_places fuel (Suc k) x)"

text \<open>
  The string of a number (in a template literal). A value that is a decimal of at
  most six places and at most fifteen digits is printed as those digits, which is
  what the program prints for the binary64 value nearest to it. The digits of any
  other finite value depend on its binary64 representation: they are the parameter
  \<open>sd\<close>, applied to the absolute value.
\<close>

definition sign_str :: "real \<Rightarrow> string" where
  "sign_str x = (if x < 0 then ''-'' else [])"

definition Number_toString :: "(real \<Rightarrow> string) \<Rightarrow> jsnum \<Rightarrow> string" where
  "Number_toString sd v =
     (case v of
        NaN \<Rightarrow> ''NaN''
      | PInf \<Rightarrow> ''Infinity''
      | NInf \<Rightarrow> ''-Infinity''
      | Fin x \<Rightarrow>
          sign_str x @
          (case find_places 7 0 \<bar>x\<bar> of
             None \<Rightarrow> sd \<bar>x\<bar>
           | Some k \<Rightarrow>
               if 10 ^ 15 < \<bar>x\<bar> * 10 ^ k then sd \<bar>x\<bar>
               else if k = 0 then nat_to_digits (nat \<lfloor>\<bar>x\<bar>\<rfloor>)
               else fixed_point k (nat \<lfloor>\<bar>x\<bar> * 10 ^ k\<rfloor>)))"

text \<open>
  \<open>Number.prototype.toFixed(f)\<close>: a value that is not finite is printed as by
  \<open>Number_toString\<close>; the sign is taken off; from \<open>10^21\<close> on the rest is printed
  as by \<open>Number_toString\<close>; below, \<open>n\<close> is the integer nearest to
  \<open>x * 10^f\<close> (the larger one of two), printed with the point before its last
  \<open>f\<close> digits.
\<close>

definition toFixed :: "(real \<Rightarrow> string) \<Rightarrow> nat \<Rightarrow> jsnum \<Rightarrow> string" where
  "toFixed sd f v =
     (case v of
        Fin x \<Rightarrow>
          sign_str x @
          (if 10 ^ 21 \<le> \<bar>x\<bar> then Number_toString sd (Fin \<bar>x\<bar>)
           else
             let n = nat \<lfloor>\<bar>x\<bar> * 10 ^ f + 1 / 2\<rfloor>
             in if f = 0 then nat_to_digits n else fixed_point f n)
      | _ \<Rightarrow> Number_toString sd v)"

section \<open>Constants and configuration\<close>

text \<open>
  The tables of the program, keyed by strings as in the source. A key that is not in
  a table gives \<open>undefined\<close> there and \<open>None\<close> here. Labels and descriptions are
  text for the screen; of the unit systems only the labels that the report prints
  are kept.
\<close>

record unit_system =
  area :: string
  volumeAbbr :: string

definition UNIT_SYSTEMS :: "string \<Rightarrow> unit_system option" where
  "UNIT_SYSTEMS k =
     (if k = ''imperial'' then Some \<lparr>area = ''sq ft'', volumeAbbr = ''gal''\<rparr>
      else if k = ''metric'' then Some \<lparr>area = ''sq m'', volumeAbbr = ''L''\<rparr>
      else None)"

record opening_config =
  type_action :: string
  defaultWidth :: jsnum
  defaultHeight :: jsnum
  faces :: jsnum

definition OPENING_TYPES :: "string \<Rightarrow> opening_config option" where
  "OPENING_TYPES k =
     (if k = ''prefinishedDoor'' then
        Some \<lparr>type_action = ''subtract'', defaultWidth = Fin 3, defaultHeight = Fin 7, faces = Fin 0\<rparr>
      else if k = ''paintableDoor'' then
        Some \<lparr>type_action = ''add'', defaultWidth = Fin 3, defaultHeight = Fin 7, faces = Fin 2\<rparr>
      else if k = ''window'' then
        Some \<lparr>type_action = ''subtract'', defaultWidth = Fin 4, defaultHeight = Fin 3, faces = Fin 0\<rparr>
      else if k = ''slidingDoor'' then
        Some \<lparr>type_action = ''subtract'', defaultWidth = Fin 6, defaultHeight = Fin 7, faces = Fin 0\<rparr>
      else if k = ''wardrobe'' then
        Some \<lparr>type_action = ''add'', defaultWidth = Fin 6, defaultHeight = Fin 8, faces = Fin 1\<rparr>
      else if k = ''grill'' then
        Some \<lparr>type_action = ''add'', defaultWidth = Fin 3, defaultHeight = Fin 7, faces = Fin 2\<rparr>
      else None)"

text \<open>The coverage of a paint type, itself a table keyed by the unit system.\<close>

definition coverage_table :: "real \<Rightarrow> real \<Rightarrow> string \<Rightarrow> jsnum option" where
  "coverage_table imp met u =
     (if u = ''imperial'' then Some (Fin imp)
      else if u = ''metric'' then Some (Fin met)
      else None)"

definition PAINT_TYPES :: "string \<Rightarrow> (string \<Rightarrow> jsnum option) option" where
  "PAINT_TYPES k =
     (if k = ''interior'' then Some (coverage_table 350 32.5)
      else if k = ''exterior'' then Some (coverage_table 300 28)
      else if k = ''enamel'' then Some (coverage_table 400 37)
      else if k = ''primer'' then Some (coverage_table 400 37)
      else if k = ''ceiling'' then Some (coverage_table 400 37)
      else None)"

section \<open>Data model\<close>

text \<open>
  An opening as the form and the example data build it. Width and height are
  numbers or the text of an input field. The quantity is an integer-valued number
  (the form stores \<open>parseInt(text) || 1\<close>); the face-count override is a number,
  or absent (\<open>None\<close>) as in the first room of the example. The fields \<open>type\<close>,
  \<open>width\<close> and \<open>height\<close> of an opening and \<open>id\<close>, \<open>name\<close>, \<open>length\<close>,
  \<open>width\<close> and \<open>height\<close> of a room carry a prefix here.
\<close>

record wall_opening =
  opening_type :: string
  opening_width :: jsval
  opening_height :: jsval
  quantity :: int
  action :: string
  customFaces :: "jsnum option"

record room =
  room_id :: string
  room_name :: string
  room_length :: jsval
  room_width :: jsval
  room_height :: jsval
  openings :: "wall_opening list"

record settings =
  coats :: jsnum
  wastagePercent :: jsnum
  includeCeiling :: bool
  paintType :: string

definition DEFAULT_SETTINGS :: settings where
  "DEFAULT_SETTINGS =
     \<lparr>coats = Fin 2, wastagePercent = Fin 10, includeCeiling = True, paintType = ''interior''\<rparr>"

record areas =
  wallArea :: jsnum
  ceilingArea :: jsnum
  subtractArea :: jsnum
  addArea :: jsnum
  netWallArea :: jsnum
  totalPaintableArea :: jsnum

record paint =
  base :: jsnum
  withCoats :: jsnum
  withWastage :: jsnum
  rounded :: jsnum

text \<open>
  The result of \<open>calculateAll\<close>. Each entry of \<open>res_rooms\<close> is a room with its
  \<open>calculations\<close>; \<open>res_coverage\<close> is \<open>None\<close> when the paint type has no
  coverage for the unit system (\<open>undefined\<close>).
\<close>

record results =
  res_rooms :: "(room \<times> areas) list"
  totals :: areas
  res_paint :: paint
  res_settings :: settings
  res_unitSystem :: string
  res_coverage :: "jsnum option"

datatype error = TypeError

section \<open>Calculation engine\<close>

definition calculateWallArea :: "jsval \<Rightarrow> jsval \<Rightarrow> jsval \<Rightarrow> jsnum" where
  "calculateWallArea l w h =
     (let perimeter = js_mul (Fin 2) (js_add (parseFloat l) (parseFloat w))
      in js_mul perimeter (parseFloat h))"

definition calculateCeilingArea :: "jsval \<Rightarrow> jsval \<Rightarrow> jsnum" where
  "calculateCeilingArea l w = js_mul (parseFloat l) (parseFloat w)"

text \<open>
  \<open>opening.customFaces ?? OPENING_TYPES[opening.type]?.faces ?? 0\<close>: the override
  if there is one, else the default of the type, else 0 for an unknown type.
\<close>

definition opening_faces :: "wall_opening \<Rightarrow> jsnum" where
  "opening_faces opn =
     (case customFaces opn of
        Some f \<Rightarrow> f
      | None \<Rightarrow> (case OPENING_TYPES (opening_type opn) of
                   Some t \<Rightarrow> faces t
                 | None \<Rightarrow> Fin 0))"

definition calculateOpeningArea :: "wall_opening \<Rightarrow> jsnum" where
  "calculateOpeningArea opn =
     (let baseArea = js_mul (parseFloat (opening_width opn)) (parseFloat (opening_height opn));
          qty = js_or (parseInt (quantity opn)) (Fin 1);
          fcs = opening_faces opn
      in if action opn = ''add'' then js_mul (js_mul baseArea qty) (Math_max fcs (Fin 1))
         else js_mul baseArea qty)"

text \<open>
  The body of the \<open>forEach\<close> over the openings of a room, on the pair of
  accumulators \<open>(subtractArea, addArea)\<close>.
\<close>

definition opening_step :: "jsnum \<times> jsnum \<Rightarrow> wall_opening \<Rightarrow> jsnum \<times> jsnum" where
  "opening_step acc opn =
     (let a = calculateOpeningArea opn
      in if action opn = ''subtract'' then (js_add (fst acc) a, snd acc)
         else if action opn = ''add'' then (fst acc, js_add (snd acc) a)
         else acc)"

definition calculateRoomArea :: "room \<Rightarrow> bool \<Rightarrow> areas" where
  "calculateRoomArea r incl =
     (let wall = calculateWallArea (room_length r) (room_width r) (room_height r);
          ceil = (if incl then calculateCeilingArea (room_length r) (room_width r) else Fin 0);
          acc = foldl opening_step (Fin 0, Fin 0) (openings r)
      in \<lparr>wallArea = wall,
          ceilingArea = ceil,
          subtractArea = fst acc,
          addArea = snd acc,
          netWallArea = Math_max (Fin 0) (js_sub wall (fst acc)),
          totalPaintableArea =
            js_add (js_add (Math_max (Fin 0) (js_sub wall (fst acc))) ceil) (snd acc)\<rparr>)"

definition calculatePaintRequired :: "jsnum \<Rightarrow> jsnum \<Rightarrow> jsnum \<Rightarrow> jsnum \<Rightarrow> paint" where
  "calculatePaintRequired ar cov cts wst =
     (let baseAmount = js_div ar cov;
          wc = js_mul baseAmount cts;
          ww = js_mul wc (js_add (Fin 1) (js_div wst (Fin 100)))
      in \<lparr>base = baseAmount, withCoats = wc, withWastage = ww, rounded = Math_ceil ww\<rparr>)"

text \<open>\<open>results.totals[key] += roomCalc[key]\<close> for each of the six keys.\<close>

definition add_areas :: "areas \<Rightarrow> areas \<Rightarrow> areas" where
  "add_areas t c =
     \<lparr>wallArea = js_add (wallArea t) (wallArea c),
      ceilingArea = js_add (ceilingArea t) (ceilingArea c),
      subtractArea = js_add (subtractArea t) (subtractArea c),
      addArea = js_add (addArea t) (addArea c),
      netWallArea = js_add (netWallArea t) (netWallArea c),
      totalPaintableArea = js_add (totalPaintableArea t) (totalPaintableArea c)\<rparr>"

definition zero_areas :: areas where
  "zero_areas =
     \<lparr>wallArea = Fin 0, ceilingArea = Fin 0, subtractArea = Fin 0, addArea = Fin 0,
      netWallArea = Fin 0, totalPaintableArea = Fin 0\<rparr>"

text \<open>The body of the \<open>forEach\<close> over the rooms: push the room, add to the totals.\<close>

definition room_step :: "bool \<Rightarrow> (room \<times> areas) list \<times> areas \<Rightarrow> room \<Rightarrow> (room \<times> areas) list \<times> areas" where
  "room_step incl acc r =
     (let roomCalc = calculateRoomArea r incl
      in (fst acc @ [(r, roomCalc)], add_areas (snd acc) roomCalc))"

text \<open>An absent coverage is \<open>undefined\<close>, which is NaN in a division.\<close>

definition to_number :: "jsnum option \<Rightarrow> jsnum" where
  "to_number v = (case v of None \<Rightarrow> NaN | Some n \<Rightarrow> n)"

text \<open>
  \<open>calculateAll\<close> reads \<open>paintConfig.coverage\<close>: for a paint type that is not in
  the table \<open>paintConfig\<close> is \<open>undefined\<close> and the read throws a TypeError.
\<close>

definition calculateAll :: "room list \<Rightarrow> settings \<Rightarrow> string \<Rightarrow> error + results" where
  "calculateAll rms s unitSystem =
     (let acc = foldl (room_step (includeCeiling s)) ([], zero_areas) rms
      in case PAINT_TYPES (paintType s) of
           None \<Rightarrow> Inl TypeError
         | Some paintConfig \<Rightarrow>
             let cov = paintConfig unitSystem
             in Inr \<lparr>res_rooms = fst acc,
                     totals = snd acc,
                     res_paint = calculatePaintRequired (totalPaintableArea (snd acc))
                                   (to_number cov) (coats s) (wastagePercent s),
                     res_settings = s,
                     res_unitSystem = unitSystem,
                     res_coverage = cov\<rparr>)"

section \<open>Export\<close>

definition nl :: string where
  "nl = [CHR 0x0A]"

definition dquote :: string where
  "dquote = [CHR 0x22]"

text \<open>The line that \<open>toCSV\<close> appends for one room of the result.\<close>

definition csv_room_line :: "(real \<Rightarrow> string) \<Rightarrow> room \<times> areas \<Rightarrow> string" where
  "csv_room_line sd rc =
     (let c = snd rc
      in dquote @ room_name (fst rc) @ dquote @ '','' @
         toFixed sd 2 (wallArea c) @ '','' @
         toFixed sd 2 (ceilingArea c) @ '','' @
         toFixed sd 2 (subtractArea c) @ '','' @
         toFixed sd 2 (addArea c) @ '','' @
         toFixed sd 2 (totalPaintableArea c) @ nl)"

text \<open>\<open>${results.coverage}\<close>: the string of a number, or of \<open>undefined\<close>.\<close>

definition coverage_string :: "(real \<Rightarrow> string) \<Rightarrow> jsnum option \<Rightarrow> string" where
  "coverage_string sd v = (case v of None \<Rightarrow> ''undefined'' | Some n \<Rightarrow> Number_toString sd n)"

text \<open>
  \<open>toCSV\<close> builds the report by appending to \<open>csv\<close>. For a unit system that is not
  in the table \<open>units\<close> is \<open>undefined\<close> and reading \<open>units.area\<close> throws a
  TypeError.
\<close>

definition toCSV :: "(real \<Rightarrow> string) \<Rightarrow> results \<Rightarrow> error + string" where
  "toCSV sd res =
     (case UNIT_SYSTEMS (res_unitSystem res) of
        None \<Rightarrow> Inl TypeError
      | Some units \<Rightarrow>
          let csv0 = ''Paint Calculator Estimate'' @ nl @ nl;
              csv1 = csv0 @ ''Room Details'' @ nl;
              csv2 = csv1 @ ''Room Name,Wall Area,Ceiling Area,Subtract Area,Add Area,Net Paintable Area'' @ nl;
              csv3 = foldl (\<lambda>csv rc. csv @ csv_room_line sd rc) csv2 (res_rooms res);
              csv4 = csv3 @ nl @ ''Totals'' @ nl;
              csv5 = csv4 @ ''Total Wall Area,'' @ toFixed sd 2 (wallArea (totals res)) @ '' '' @ area units @ nl;
              csv6 = csv5 @ ''Total Ceiling Area,'' @ toFixed sd 2 (ceilingArea (totals res)) @ '' '' @ area units @ nl;
              csv7 = csv6 @ ''Total Subtract Area,'' @ toFixed sd 2 (subtractArea (totals res)) @ '' '' @ area units @ nl;
              csv8 = csv7 @ ''Total Add Area,'' @ toFixed sd 2 (addArea (totals res)) @ '' '' @ area units @ nl;
              csv9 = csv8 @ ''Net Paintable Area,'' @ toFixed sd 2 (totalPaintableArea (totals res)) @ '' '' @ area units @ nl;
              csv10 = csv9 @ nl @ ''Paint Required'' @ nl;
              csv11 = csv10 @ ''Coats,'' @ Number_toString sd (coats (res_settings res)) @ nl;
              csv12 = csv11 @ ''Wastage,'' @ Number_toString sd (wastagePercent (res_settings res)) @ ''%'' @ nl;
              csv13 = csv12 @ ''Coverage,'' @ coverage_string sd (res_coverage res) @ '' '' @ area units @ ''/'' @ volumeAbbr units @ nl;
              csv14 = csv13 @ ''Paint Required,'' @ toFixed sd 2 (withWastage (res_paint res)) @ '' '' @ volumeAbbr units @ nl;
              csv15 = csv14 @ ''Recommended Purchase,'' @ Number_toString sd (rounded (res_paint res)) @ '' '' @ volumeAbbr units @ nl
          in Inr csv15)"

section \<open>Application state\<close>

text \<open>
  The state of the component that the unit toggle and the result depend on: the
  active unit system, the rooms and the settings.
\<close>

record app_state =
  unitSystem :: string
  rooms :: "room list"
  app_settings :: settings






text \<open>The memoised \<open>results\<close> of the component: \<open>null\<close> when there is no room.\<close>

definition app_results :: "app_state \<Rightarrow> (error + results) option" where
  "app_results st =
     (if length (rooms st) = 0 then None
      else Some (calculateAll (rooms st) (app_settings st) (unitSystem st)))"

text \<open>The example of the example panel.\<close>

definition living_room :: room where
  "living_room =
     \<lparr>room_id = ''1'', room_name = ''Living Room'',
      room_length = Num (Fin 20), room_width = Num (Fin 15), room_height = Num (Fin 9),
      openings =
        [\<lparr>opening_type = ''prefinishedDoor'', opening_width = Num (Fin 3), opening_height = Num (Fin 7),
          quantity = 1, action = ''subtract'', customFaces = None\<rparr>,
         \<lparr>opening_type = ''window'', opening_width = Num (Fin 6), opening_height = Num (Fin 4),
          quantity = 2, action = ''subtract'', customFaces = None\<rparr>]\<rparr>"

definition master_bedroom :: room where
  "master_bedroom =
     \<lparr>room_id = ''2'', room_name = ''Master Bedroom'',
      room_length = Num (Fin 14), room_width = Num (Fin 12), room_height = Num (Fin 9),
      openings =
        [\<lparr>opening_type = ''paintableDoor'', opening_width = Num (Fin 3), opening_height = Num (Fin 7),
          quantity = 1, action = ''add'', customFaces = Some (Fin 2)\<rparr>,
         \<lparr>opening_type = ''window'', opening_width = Num (Fin 4), opening_height = Num (Fin 3),
          quantity = 1, action = ''subtract'', customFaces = None\<rparr>,
         \<lparr>opening_type = ''wardrobe'', opening_width = Num (Fin 8), opening_height = Num (Fin 8),
          quantity = 1, action = ''add'', customFaces = Some (Fin 1)\<rparr>]\<rparr>"

definition example_rooms :: "room list" where
  "example_rooms = [living_room, master_bedroom]"

definition example_settings :: settings where
  "example_settings =
     \<lparr>coats = Fin 2, wastagePercent = Fin 10, includeCeiling = True, paintType = ''interior''\<rparr>"

section \<open>Notions used in the statements\<close>

text \<open>The sum of a list of numbers from 0, left to right, as \<open>+=\<close> in a loop adds them.\<close>

definition js_sum :: "jsnum list \<Rightarrow> jsnum" where
  "js_sum xs = foldl js_add (Fin 0) xs"

text \<open>The comparison \<open>a <= b\<close> of two numbers; false when either is NaN.\<close>

fun js_le :: "jsnum \<Rightarrow> jsnum \<Rightarrow> bool" where
  "js_le (Fin x) (Fin y) = (x \<le> y)"
| "js_le NaN b = False"
| "js_le a NaN = False"
| "js_le NInf b = True"
| "js_le a PInf = True"
| "js_le a b = False"





text \<open>
  The report as the specification lays it out, line by line: the title and a blank
  line, the room table (its heading, the header row and one row per room), a blank
  line, the section of totals with its five labelled rows, a blank line, and the
  section of the paint required with its five rows.
\<close>

definition spec_csv_report :: "(real \<Rightarrow> string) \<Rightarrow> unit_system \<Rightarrow> results \<Rightarrow> string list" where
  "spec_csv_report sd units res =
     [''Paint Calculator Estimate'',
      [],
      ''Room Details'',
      ''Room Name,Wall Area,Ceiling Area,Subtract Area,Add Area,Net Paintable Area''] @
     map (\<lambda>rc. dquote @ room_name (fst rc) @ dquote @ '','' @
               toFixed sd 2 (wallArea (snd rc)) @ '','' @
               toFixed sd 2 (ceilingArea (snd rc)) @ '','' @
               toFixed sd 2 (subtractArea (snd rc)) @ '','' @
               toFixed sd 2 (addArea (snd rc)) @ '','' @
               toFixed sd 2 (totalPaintableArea (snd rc)))
         (res_rooms res) @
     [[],
      ''Totals'',
      ''Total Wall Area,'' @ toFixed sd 2 (wallArea (totals res)) @ '' '' @ area units,
      ''Total Ceiling Area,'' @ toFixed sd 2 (ceilingArea (totals res)) @ '' '' @ area units,
      ''Total Subtract Area,'' @ toFixed sd 2 (subtractArea (totals res)) @ '' '' @ area units,
      ''Total Add Area,'' @ toFixed sd 2 (addArea (totals res)) @ '' '' @ area units,
      ''Net Paintable Area,'' @ toFixed sd 2 (totalPaintableArea (totals res)) @ '' '' @ area units,
      [],
      ''Paint Required'',
      ''Coats,'' @ Number_toString sd (coats (res_settings res)),
      ''Wastage,'' @ Number_toString sd (wastagePercent (res_settings res)) @ ''%'',
      ''Coverage,'' @ coverage_string sd (res_coverage res) @ '' '' @ area units @ ''/'' @ volumeAbbr units,
      ''Paint Required,'' @ toFixed sd 2 (withWastage (res_paint res)) @ '' '' @ volumeAbbr units,
      ''Recommended Purchase,'' @ Number_toString sd (rounded (res_paint res)) @ '' '' @ volumeAbbr units]"

definition unlines :: "string list \<Rightarrow> string" where
  "unlines ls = concat (map (\<lambda>l. l @ nl) ls)"



section \<open>The area of a room\<close>

lemma foldl_opening_step:
  "foldl opening_step (s, a) ops =
     (foldl js_add s (map calculateOpeningArea (filter (\<lambda>opn. action opn = ''subtract'') ops)),
      foldl js_add a (map calculateOpeningArea (filter (\<lambda>opn. action opn = ''add'') ops)))"
  by (induction ops arbitrary: s a) (simp_all add: opening_step_def Let_def)

lemma Math_max_zero_not_negative: "\<not> js_negative (Math_max (Fin 0) v)"
  by (cases v) simp_all

text \<open>
  C1. For a room whose length, width and height read as the numbers \<open>L\<close>, \<open>W\<close>
  and \<open>H\<close>, and for either value of \<open>includeCeiling\<close>, \<open>calculateRoomArea\<close>
  returns the wall area \<open>2 * (L + W) * H\<close>, the ceiling area \<open>L * W\<close> if the
  ceiling is included and 0 otherwise, as \<open>subtractArea\<close> and \<open>addArea\<close> the sums
  of the areas of the openings with action \<open>subtract\<close> and with action \<open>add\<close>,
  as \<open>netWallArea\<close> the maximum of 0 and wall area minus \<open>subtractArea\<close>, which
  is never negative, and as \<open>totalPaintableArea\<close> the sum of \<open>netWallArea\<close>,
  ceiling area and \<open>addArea\<close>; when the two sums are the finite numbers \<open>S\<close>
  and \<open>A\<close>, these are \<open>max 0 (2 * (L + W) * H - S)\<close> and that plus the ceiling
  area plus \<open>A\<close>. The statement needs neither the sign of the dimensions nor a
  restriction on the actions of the openings.
\<close>

theorem calculateRoomArea_formula:
  assumes "parseFloat (room_length r) = Fin L"
    and "parseFloat (room_width r) = Fin W"
    and "parseFloat (room_height r) = Fin H"
  shows "wallArea (calculateRoomArea r incl) = Fin (2 * (L + W) * H)
       \<and> ceilingArea (calculateRoomArea r incl) = (if incl then Fin (L * W) else Fin 0)
       \<and> subtractArea (calculateRoomArea r incl) =
           js_sum (map calculateOpeningArea (filter (\<lambda>opn. action opn = ''subtract'') (openings r)))
       \<and> addArea (calculateRoomArea r incl) =
           js_sum (map calculateOpeningArea (filter (\<lambda>opn. action opn = ''add'') (openings r)))
       \<and> netWallArea (calculateRoomArea r incl) =
           Math_max (Fin 0) (js_sub (wallArea (calculateRoomArea r incl)) (subtractArea (calculateRoomArea r incl)))
       \<and> \<not> js_negative (netWallArea (calculateRoomArea r incl))
       \<and> totalPaintableArea (calculateRoomArea r incl) =
           js_add (js_add (netWallArea (calculateRoomArea r incl)) (ceilingArea (calculateRoomArea r incl)))
                  (addArea (calculateRoomArea r incl))
       \<and> (\<forall>S A. subtractArea (calculateRoomArea r incl) = Fin S
                \<and> addArea (calculateRoomArea r incl) = Fin A \<longrightarrow>
              netWallArea (calculateRoomArea r incl) = Fin (max 0 (2 * (L + W) * H - S))
            \<and> totalPaintableArea (calculateRoomArea r incl) =
                Fin (max 0 (2 * (L + W) * H - S) + (if incl then L * W else 0) + A))"
proof -
  have w: "calculateWallArea (room_length r) (room_width r) (room_height r) = Fin (2 * (L + W) * H)"
    using assms by (simp add: calculateWallArea_def Let_def)
  have c: "calculateCeilingArea (room_length r) (room_width r) = Fin (L * W)"
    using assms by (simp add: calculateCeilingArea_def)
  have "\<forall>S A. subtractArea (calculateRoomArea r incl) = Fin S
                \<and> addArea (calculateRoomArea r incl) = Fin A \<longrightarrow>
              netWallArea (calculateRoomArea r incl) = Fin (max 0 (2 * (L + W) * H - S))
            \<and> totalPaintableArea (calculateRoomArea r incl) =
                Fin (max 0 (2 * (L + W) * H - S) + (if incl then L * W else 0) + A)"
    by (simp add: calculateRoomArea_def Let_def w c js_sub_def)
  then show ?thesis
    by (simp add: calculateRoomArea_def Let_def w c foldl_opening_step js_sum_def
        Math_max_zero_not_negative)
qed

text \<open>
  The theorem at the first room of the example, 20 by 15 by 9, with openings of 21
  and 48 to subtract.
\<close>

theorem calculateRoomArea_formula_witness:
  "wallArea (calculateRoomArea living_room True) = Fin 630
 \<and> ceilingArea (calculateRoomArea living_room True) = Fin 300
 \<and> \<not> js_negative (netWallArea (calculateRoomArea living_room True))
 \<and> netWallArea (calculateRoomArea living_room True) = Fin 561
 \<and> totalPaintableArea (calculateRoomArea living_room True) = Fin 861"
proof -
  have d: "parseFloat (room_length living_room) = Fin 20"
    "parseFloat (room_width living_room) = Fin 15"
    "parseFloat (room_height living_room) = Fin 9"
    by (simp_all add: living_room_def)
  have s: "subtractArea (calculateRoomArea living_room True) = Fin 69
      \<and> addArea (calculateRoomArea living_room True) = Fin 0"
    by (simp add: living_room_def calculateRoomArea_def calculateOpeningArea_def opening_step_def
        parseInt_def js_or_def Let_def)
  from calculateRoomArea_formula [OF d, of True] s
  have "wallArea (calculateRoomArea living_room True) = Fin (2 * (20 + 15) * 9)"
    and "ceilingArea (calculateRoomArea living_room True) = (if True then Fin (20 * 15) else Fin 0)"
    and "\<not> js_negative (netWallArea (calculateRoomArea living_room True))"
    and "netWallArea (calculateRoomArea living_room True) = Fin (max 0 (2 * (20 + 15) * 9 - 69))"
    and "totalPaintableArea (calculateRoomArea living_room True) =
           Fin (max 0 (2 * (20 + 15) * 9 - 69) + (if True then 20 * 15 else 0) + 0)"
    by blast+
  then show ?thesis
    by simp
qed

section \<open>The area of an opening\<close>





section \<open>The paint required\<close>



lemma rounded_Fin:
  "c \<noteq> 0 \<Longrightarrow> rounded (calculatePaintRequired (Fin a) (Fin c) (Fin n) (Fin w)) =
     Fin (of_int \<lceil>a / c * n * (1 + w / 100)\<rceil>)"
  by (simp add: calculatePaintRequired_def Let_def)

text \<open>
  C5. For a non-negative area, a positive coverage, a positive number of coats and
  a non-negative wastage percentage, the recommended purchase amount (\<open>rounded\<close>)
  does not decrease when the coats, the wastage percentage or the area grows and
  the other arguments stay as they are.
\<close>

theorem paint_monotone:
  assumes "0 \<le> a" and "0 < c" and "0 < n" and "0 \<le> w"
    and "a \<le> a'" and "n \<le> n'" and "w \<le> w'"
  shows "js_le (rounded (calculatePaintRequired (Fin a) (Fin c) (Fin n) (Fin w)))
               (rounded (calculatePaintRequired (Fin a) (Fin c) (Fin n') (Fin w)))
       \<and> js_le (rounded (calculatePaintRequired (Fin a) (Fin c) (Fin n) (Fin w)))
               (rounded (calculatePaintRequired (Fin a) (Fin c) (Fin n) (Fin w')))
       \<and> js_le (rounded (calculatePaintRequired (Fin a) (Fin c) (Fin n) (Fin w)))
               (rounded (calculatePaintRequired (Fin a') (Fin c) (Fin n) (Fin w)))"
proof -
  have c0: "c \<noteq> 0" using assms(2) by simp
  have b: "0 \<le> a / c" using assms(1,2) by simp
  have k: "0 \<le> 1 + w / 100" using assms(4) by simp
  have n0: "0 \<le> n" using assms(3) by simp
  have "a / c * n \<le> a / c * n'"
    using b assms(6) by (rule mult_left_mono[rotated])
  then have 1: "a / c * n * (1 + w / 100) \<le> a / c * n' * (1 + w / 100)"
    using k by (rule mult_right_mono)
  have bn: "0 \<le> a / c * n" using b n0 by (rule mult_nonneg_nonneg)
  have "1 + w / 100 \<le> 1 + w' / 100" using assms(7) by simp
  then have 2: "a / c * n * (1 + w / 100) \<le> a / c * n * (1 + w' / 100)"
    using bn by (rule mult_left_mono)
  have "a / c \<le> a' / c" using assms(2,5) by (simp add: divide_right_mono)
  then have "a / c * n \<le> a' / c * n" using n0 by (rule mult_right_mono)
  then have 3: "a / c * n * (1 + w / 100) \<le> a' / c * n * (1 + w / 100)"
    using k by (rule mult_right_mono)
  show ?thesis
    using 1 2 3 by (simp add: rounded_Fin c0 ceiling_mono)
qed

text \<open>
  The theorem at 1591 square feet, coverage 350, 2 coats and 10 percent, against
  3 coats, 40 percent and 2000 square feet: 11, then 15, 13 and 13.
\<close>

theorem paint_monotone_witness:
  "js_le (rounded (calculatePaintRequired (Fin 1591) (Fin 350) (Fin 2) (Fin 10)))
         (rounded (calculatePaintRequired (Fin 1591) (Fin 350) (Fin 3) (Fin 10)))
 \<and> js_le (rounded (calculatePaintRequired (Fin 1591) (Fin 350) (Fin 2) (Fin 10)))
         (rounded (calculatePaintRequired (Fin 1591) (Fin 350) (Fin 2) (Fin 40)))
 \<and> js_le (rounded (calculatePaintRequired (Fin 1591) (Fin 350) (Fin 2) (Fin 10)))
         (rounded (calculatePaintRequired (Fin 2000) (Fin 350) (Fin 2) (Fin 10)))"
  using paint_monotone [of 1591 350 2 10 2000 3 40]
  by simp

section \<open>The example, end to end\<close>

lemmas engine_defs = calculateRoomArea_def calculateWallArea_def calculateCeilingArea_def
  calculateOpeningArea_def opening_step_def opening_faces_def OPENING_TYPES_def parseInt_def
  js_or_def js_sub_def Let_def

lemma living_room_areas:
  "calculateRoomArea living_room True =
     \<lparr>wallArea = Fin 630, ceilingArea = Fin 300, subtractArea = Fin 69, addArea = Fin 0,
      netWallArea = Fin 561, totalPaintableArea = Fin 861\<rparr>"
  by (simp add: living_room_def engine_defs)

lemma master_bedroom_areas:
  "calculateRoomArea master_bedroom True =
     \<lparr>wallArea = Fin 468, ceilingArea = Fin 168, subtractArea = Fin 12, addArea = Fin 106,
      netWallArea = Fin 456, totalPaintableArea = Fin 730\<rparr>"
  by (simp add: master_bedroom_def engine_defs)

lemma example_result:
  "calculateAll example_rooms example_settings ''imperial'' =
     Inr \<lparr>res_rooms =
            [(living_room,
              \<lparr>wallArea = Fin 630, ceilingArea = Fin 300, subtractArea = Fin 69, addArea = Fin 0,
               netWallArea = Fin 561, totalPaintableArea = Fin 861\<rparr>),
             (master_bedroom,
              \<lparr>wallArea = Fin 468, ceilingArea = Fin 168, subtractArea = Fin 12, addArea = Fin 106,
               netWallArea = Fin 456, totalPaintableArea = Fin 730\<rparr>)],
          totals =
            \<lparr>wallArea = Fin 1098, ceilingArea = Fin 468, subtractArea = Fin 81, addArea = Fin 106,
             netWallArea = Fin 1017, totalPaintableArea = Fin 1591\<rparr>,
          res_paint =
            \<lparr>base = Fin (1591 / 350), withCoats = Fin (1591 / 175),
             withWastage = Fin (17501 / 1750), rounded = Fin 11\<rparr>,
          res_settings = example_settings,
          res_unitSystem = ''imperial'',
          res_coverage = Some (Fin 350)\<rparr>"
proof -
  have "foldl (room_step True) ([], zero_areas) example_rooms =
          ([(living_room, calculateRoomArea living_room True),
            (master_bedroom, calculateRoomArea master_bedroom True)],
           add_areas (add_areas zero_areas (calculateRoomArea living_room True))
                     (calculateRoomArea master_bedroom True))"
    by (simp add: example_rooms_def room_step_def Let_def)
  then show ?thesis
    by (simp add: calculateAll_def Let_def living_room_areas master_bedroom_areas add_areas_def
        zero_areas_def example_settings_def PAINT_TYPES_def coverage_table_def to_number_def
        calculatePaintRequired_def)
qed

text \<open>
  C4. For the two rooms of the example, with the ceiling included, interior paint,
  2 coats, 10 percent wastage and imperial units, \<open>calculateAll\<close> returns the
  result below: per room the areas 630, 300, 69, 0, 561, 861 and 468, 168, 12, 106,
  456, 730; the total paintable area 1591; the coverage 350; and the paint figures
  \<open>1591 / 350\<close>, \<open>1591 / 175\<close> and \<open>17501 / 1750\<close>, which are 4.5457, 9.0914
  and 10.0006 to four places, and 11 rounded up.
\<close>

theorem example_calculateAll:
  "calculateAll example_rooms example_settings ''imperial'' =
     Inr \<lparr>res_rooms =
            [(living_room,
              \<lparr>wallArea = Fin 630, ceilingArea = Fin 300, subtractArea = Fin 69, addArea = Fin 0,
               netWallArea = Fin 561, totalPaintableArea = Fin 861\<rparr>),
             (master_bedroom,
              \<lparr>wallArea = Fin 468, ceilingArea = Fin 168, subtractArea = Fin 12, addArea = Fin 106,
               netWallArea = Fin 456, totalPaintableArea = Fin 730\<rparr>)],
          totals =
            \<lparr>wallArea = Fin 1098, ceilingArea = Fin 468, subtractArea = Fin 81, addArea = Fin 106,
             netWallArea = Fin 1017, totalPaintableArea = Fin 1591\<rparr>,
          res_paint =
            \<lparr>base = Fin (1591 / 350), withCoats = Fin (1591 / 175),
             withWastage = Fin (17501 / 1750), rounded = Fin 11\<rparr>,
          res_settings = example_settings,
          res_unitSystem = ''imperial'',
          res_coverage = Some (Fin 350)\<rparr>
   \<and> \<bar>1591 / 350 - 4.5457\<bar> < (0.00005 :: real)
   \<and> \<bar>1591 / 175 - 9.0914\<bar> < (0.00005 :: real)
   \<and> \<bar>17501 / 1750 - 10.0006\<bar> < (0.00005 :: real)"
  using example_result by simp


section \<open>Printing and parsing digits\<close>


lemma nat_to_digits_nonempty: "nat_to_digits n \<noteq> []"
  by (subst nat_to_digits.simps) simp









lemma toFixed_small:
  assumes "0 < f" and "\<bar>x\<bar> < 10 ^ 21"
  shows "toFixed sd f (Fin x) = sign_str x @ fixed_point f (nat \<lfloor>\<bar>x\<bar> * 10 ^ f + 1 / 2\<rfloor>)"
  using assms by (simp add: toFixed_def Let_def)

lemma find_places_unfold:
  "find_places fuel k x =
     (if fuel = 0 then None
      else if is_int (x * 10 ^ k) then Some k
      else find_places (fuel - 1) (Suc k) x)"
  by (cases fuel) simp_all

text \<open>Rewrite rules that print a given number.\<close>

lemmas print_simps = toFixed_small sign_str_def fixed_point_def pad_zeros_def nat_to_digits.simps
  digit_char_def

lemmas toString_simps = Number_toString_def find_places_unfold is_int_def sign_str_def
  fixed_point_def pad_zeros_def nat_to_digits.simps digit_char_def




section \<open>The unit toggle\<close>
















section \<open>Malformed dimensions\<close>

text \<open>
  The four area functions have no branch that throws: \<open>parseFloat\<close>,
  \<open>parseInt\<close>, the arithmetic, \<open>Math.max\<close>, \<open>??\<close> and \<open>?.\<close>, and
  \<open>forEach\<close> on the list of openings all return for every argument, and so the
  functions of the embedding return a number, or a record of numbers, and never an
  error.
\<close>

lemma js_mul_NaN [simp]: "js_mul v NaN = NaN"
  by (cases v) simp_all

lemma js_add_NaN [simp]: "js_add v NaN = NaN"
  by (cases v) simp_all

lemma Math_max_NaN [simp]: "Math_max v NaN = NaN"
  by (cases v) simp_all

lemma js_neg_NaN_iff [simp]: "js_neg v = NaN \<longleftrightarrow> v = NaN"
  by (cases v) simp_all












section \<open>The tabular export\<close>

lemma foldl_append_concat:
  "foldl (\<lambda>csv rc. csv @ g rc) acc xs = acc @ concat (map g xs)"
  by (induction xs arbitrary: acc) simp_all


lemma toCSV_unlines:
  assumes "UNIT_SYSTEMS (res_unitSystem res) = Some units"
  shows "toCSV sd res = Inr (unlines (spec_csv_report sd units res))"
  using assms
  by (simp add: toCSV_def Let_def foldl_append_concat spec_csv_report_def unlines_def
      csv_room_line_def map_concat comp_def)






section \<open>No rooms\<close>

lemma toFixed_zero: "toFixed sd 2 (Fin 0) = ''0.00''"
  by (simp add: print_simps)

text \<open>
  C8. With a paint type and a unit system that are in their tables: the component
  has no result (\<open>None\<close>) when there is no room, and has the result of
  \<open>calculateAll\<close> as soon as there is one, so that no rooms is told apart from a
  computed result of area zero, such as that of a room of 0 by 0 by 0; and
  \<open>calculateAll\<close> of the empty list of rooms returns a result with no rooms and
  totals of zero, for which \<open>toCSV\<close> returns, without an error, the report with
  an empty room table and totals of 0.00.
\<close>

theorem no_rooms:
  assumes "PAINT_TYPES (paintType s) = Some pc" and "UNIT_SYSTEMS u = Some units"
  shows "app_results \<lparr>unitSystem = u, rooms = [], app_settings = s\<rparr> = None
       \<and> (\<forall>r rs. app_results \<lparr>unitSystem = u, rooms = r # rs, app_settings = s\<rparr> =
                   Some (calculateAll (r # rs) s u))
       \<and> (\<exists>res. calculateAll [] s u = Inr res
             \<and> res_rooms res = []
             \<and> totals res = zero_areas
             \<and> toCSV sd res =
                 Inr (unlines
                   [''Paint Calculator Estimate'',
                    [],
                    ''Room Details'',
                    ''Room Name,Wall Area,Ceiling Area,Subtract Area,Add Area,Net Paintable Area'',
                    [],
                    ''Totals'',
                    ''Total Wall Area,0.00 '' @ area units,
                    ''Total Ceiling Area,0.00 '' @ area units,
                    ''Total Subtract Area,0.00 '' @ area units,
                    ''Total Add Area,0.00 '' @ area units,
                    ''Net Paintable Area,0.00 '' @ area units,
                    [],
                    ''Paint Required'',
                    ''Coats,'' @ Number_toString sd (coats s),
                    ''Wastage,'' @ Number_toString sd (wastagePercent s) @ ''%'',
                    ''Coverage,'' @ coverage_string sd (pc u) @ '' '' @ area units @ ''/'' @ volumeAbbr units,
                    ''Paint Required,'' @ toFixed sd 2 (withWastage (res_paint res)) @ '' '' @ volumeAbbr units,
                    ''Recommended Purchase,'' @ Number_toString sd (rounded (res_paint res)) @ '' '' @ volumeAbbr units]))
       \<and> (\<exists>res. calculateAll
                   [\<lparr>room_id = ''1'', room_name = ''Room 1'', room_length = Num (Fin 0),
                     room_width = Num (Fin 0), room_height = Num (Fin 0), openings = []\<rparr>] s u = Inr res
             \<and> totals res = zero_areas)"
proof -
  let ?res = "\<lparr>res_rooms = [], totals = zero_areas,
      res_paint = calculatePaintRequired (Fin 0) (to_number (pc u)) (coats s) (wastagePercent s),
      res_settings = s, res_unitSystem = u, res_coverage = pc u\<rparr>"
  have e: "calculateAll [] s u = Inr ?res"
    by (simp add: calculateAll_def Let_def assms(1) zero_areas_def)
  have us: "UNIT_SYSTEMS (res_unitSystem ?res) = Some units" using assms(2) by simp
  have csv: "toCSV sd ?res = Inr (unlines (spec_csv_report sd units ?res))"
    using us by (rule toCSV_unlines)
  have rep: "spec_csv_report sd units ?res =
                   [''Paint Calculator Estimate'',
                    [],
                    ''Room Details'',
                    ''Room Name,Wall Area,Ceiling Area,Subtract Area,Add Area,Net Paintable Area'',
                    [],
                    ''Totals'',
                    ''Total Wall Area,0.00 '' @ area units,
                    ''Total Ceiling Area,0.00 '' @ area units,
                    ''Total Subtract Area,0.00 '' @ area units,
                    ''Total Add Area,0.00 '' @ area units,
                    ''Net Paintable Area,0.00 '' @ area units,
                    [],
                    ''Paint Required'',
                    ''Coats,'' @ Number_toString sd (coats s),
                    ''Wastage,'' @ Number_toString sd (wastagePercent s) @ ''%'',
                    ''Coverage,'' @ coverage_string sd (pc u) @ '' '' @ area units @ ''/'' @ volumeAbbr units,
                    ''Paint Required,'' @ toFixed sd 2 (withWastage (res_paint ?res)) @ '' '' @ volumeAbbr units,
                    ''Recommended Purchase,'' @ Number_toString sd (rounded (res_paint ?res)) @ '' '' @ volumeAbbr units]"
    by (simp add: spec_csv_report_def zero_areas_def toFixed_zero)
  have 3: "\<exists>res. calculateAll [] s u = Inr res \<and> res_rooms res = [] \<and> totals res = zero_areas
             \<and> toCSV sd res =
                 Inr (unlines
                   [''Paint Calculator Estimate'',
                    [],
                    ''Room Details'',
                    ''Room Name,Wall Area,Ceiling Area,Subtract Area,Add Area,Net Paintable Area'',
                    [],
                    ''Totals'',
                    ''Total Wall Area,0.00 '' @ area units,
                    ''Total Ceiling Area,0.00 '' @ area units,
                    ''Total Subtract Area,0.00 '' @ area units,
                    ''Total Add Area,0.00 '' @ area units,
                    ''Net Paintable Area,0.00 '' @ area units,
                    [],
                    ''Paint Required'',
                    ''Coats,'' @ Number_toString sd (coats s),
                    ''Wastage,'' @ Number_toString sd (wastagePercent s) @ ''%'',
                    ''Coverage,'' @ coverage_string sd (pc u) @ '' '' @ area units @ ''/'' @ volumeAbbr units,
                    ''Paint Required,'' @ toFixed sd 2 (withWastage (res_paint res)) @ '' '' @ volumeAbbr units,
                    ''Recommended Purchase,'' @ Number_toString sd (rounded (res_paint res)) @ '' '' @ volumeAbbr units])"
    by (rule exI [of _ ?res]) (simp add: e csv rep)
  let ?z = "\<lparr>room_id = ''1'', room_name = ''Room 1'', room_length = Num (Fin 0),
             room_width = Num (Fin 0), room_height = Num (Fin 0), openings = []\<rparr>"
  have za: "calculateRoomArea ?z (includeCeiling s) = zero_areas"
    by (simp add: calculateRoomArea_def calculateWallArea_def calculateCeilingArea_def Let_def
        js_sub_def zero_areas_def)
  have 4: "\<exists>res. calculateAll [?z] s u = Inr res \<and> totals res = zero_areas"
    by (simp add: calculateAll_def Let_def assms(1) room_step_def za)
       (simp add: add_areas_def zero_areas_def)
  have 1: "app_results \<lparr>unitSystem = u, rooms = [], app_settings = s\<rparr> = None"
    by (simp add: app_results_def)
  have 2: "\<forall>r rs. app_results \<lparr>unitSystem = u, rooms = r # rs, app_settings = s\<rparr> =
                   Some (calculateAll (r # rs) s u)"
    by (simp add: app_results_def)
  from 1 2 3 4 show ?thesis by (intro conjI)
qed

text \<open>The theorem at the default settings in imperial units: the report, in full.\<close>

theorem no_rooms_witness:
  "app_results \<lparr>unitSystem = ''imperial'', rooms = [], app_settings = DEFAULT_SETTINGS\<rparr> = None
 \<and> (\<exists>res. calculateAll [] DEFAULT_SETTINGS ''imperial'' = Inr res
       \<and> toCSV (\<lambda>x. []) res =
           Inr (unlines
             [''Paint Calculator Estimate'',
              [],
              ''Room Details'',
              ''Room Name,Wall Area,Ceiling Area,Subtract Area,Add Area,Net Paintable Area'',
              [],
              ''Totals'',
              ''Total Wall Area,0.00 sq ft'',
              ''Total Ceiling Area,0.00 sq ft'',
              ''Total Subtract Area,0.00 sq ft'',
              ''Total Add Area,0.00 sq ft'',
              ''Net Paintable Area,0.00 sq ft'',
              [],
              ''Paint Required'',
              ''Coats,2'',
              ''Wastage,10%'',
              ''Coverage,350 sq ft/gal'',
              ''Paint Required,0.00 gal'',
              ''Recommended Purchase,0 gal'']))"
proof -
  let ?units = "\<lparr>area = ''sq ft'', volumeAbbr = ''gal''\<rparr>"
  have p: "PAINT_TYPES (paintType DEFAULT_SETTINGS) = Some (coverage_table 350 32.5)"
    by (simp add: PAINT_TYPES_def DEFAULT_SETTINGS_def)
  have u: "UNIT_SYSTEMS ''imperial'' = Some ?units"
    by (simp add: UNIT_SYSTEMS_def)
  have n: "Number_toString (\<lambda>x. []) (coats DEFAULT_SETTINGS) = ''2''"
      "Number_toString (\<lambda>x. []) (wastagePercent DEFAULT_SETTINGS) = ''10''"
      "coverage_string (\<lambda>x. []) (coverage_table 350 32.5 ''imperial'') = ''350''"
    by (simp_all add: DEFAULT_SETTINGS_def coverage_string_def coverage_table_def toString_simps)
  have w: "calculatePaintRequired (Fin 0) (Fin 350) (Fin 2) (Fin 10) =
             \<lparr>base = Fin 0, withCoats = Fin 0, withWastage = Fin 0, rounded = Fin 0\<rparr>"
    by (simp add: calculatePaintRequired_def Let_def)
  have z: "toFixed (\<lambda>x. []) 2 (Fin 0) = ''0.00''" "Number_toString (\<lambda>x. []) (Fin 0) = ''0''"
    by (simp_all add: print_simps toString_simps)
  from no_rooms [OF p u, of "\<lambda>x. []"] obtain res
    where n1: "app_results \<lparr>unitSystem = ''imperial'', rooms = [], app_settings = DEFAULT_SETTINGS\<rparr> = None"
      and a: "calculateAll [] DEFAULT_SETTINGS ''imperial'' = Inr res"
      and b: "toCSV (\<lambda>x. []) res =
                 Inr (unlines
                   [''Paint Calculator Estimate'',
                    [],
                    ''Room Details'',
                    ''Room Name,Wall Area,Ceiling Area,Subtract Area,Add Area,Net Paintable Area'',
                    [],
                    ''Totals'',
                    ''Total Wall Area,0.00 '' @ area ?units,
                    ''Total Ceiling Area,0.00 '' @ area ?units,
                    ''Total Subtract Area,0.00 '' @ area ?units,
                    ''Total Add Area,0.00 '' @ area ?units,
                    ''Net Paintable Area,0.00 '' @ area ?units,
                    [],
                    ''Paint Required'',
                    ''Coats,'' @ Number_toString (\<lambda>x. []) (coats DEFAULT_SETTINGS),
                    ''Wastage,'' @ Number_toString (\<lambda>x. []) (wastagePercent DEFAULT_SETTINGS) @ ''%'',
                    ''Coverage,'' @ coverage_string (\<lambda>x. []) (coverage_table 350 32.5 ''imperial'') @ '' '' @ area ?units @ ''/'' @ volumeAbbr ?units,
                    ''Paint Required,'' @ toFixed (\<lambda>x. []) 2 (withWastage (res_paint res)) @ '' '' @ volumeAbbr ?units,
                    ''Recommended Purchase,'' @ Number_toString (\<lambda>x. []) (rounded (res_paint res)) @ '' '' @ volumeAbbr ?units])"
    by blast
  have "calculateAll [] DEFAULT_SETTINGS ''imperial'' =
          Inr \<lparr>res_rooms = [], totals = zero_areas,
               res_paint = calculatePaintRequired (Fin 0) (Fin 350) (Fin 2) (Fin 10),
               res_settings = DEFAULT_SETTINGS, res_unitSystem = ''imperial'',
               res_coverage = Some (Fin 350)\<rparr>"
    by (simp add: calculateAll_def Let_def PAINT_TYPES_def zero_areas_def coverage_table_def
        to_number_def DEFAULT_SETTINGS_def)
  with a have "res = \<lparr>res_rooms = [], totals = zero_areas,
               res_paint = calculatePaintRequired (Fin 0) (Fin 350) (Fin 2) (Fin 10),
               res_settings = DEFAULT_SETTINGS, res_unitSystem = ''imperial'',
               res_coverage = Some (Fin 350)\<rparr>"
    by simp
  then have rp: "res_paint res = \<lparr>base = Fin 0, withCoats = Fin 0, withWastage = Fin 0, rounded = Fin 0\<rparr>"
    by (simp add: w)
  have "toCSV (\<lambda>x. []) res =
           Inr (unlines
             [''Paint Calculator Estimate'',
              [],
              ''Room Details'',
              ''Room Name,Wall Area,Ceiling Area,Subtract Area,Add Area,Net Paintable Area'',
              [],
              ''Totals'',
              ''Total Wall Area,0.00 sq ft'',
              ''Total Ceiling Area,0.00 sq ft'',
              ''Total Subtract Area,0.00 sq ft'',
              ''Total Add Area,0.00 sq ft'',
              ''Net Paintable Area,0.00 sq ft'',
              [],
              ''Paint Required'',
              ''Coats,2'',
              ''Wastage,10%'',
              ''Coverage,350 sq ft/gal'',
              ''Paint Required,0.00 gal'',
              ''Recommended Purchase,0 gal''])"
    unfolding b n rp by (simp add: z)
  with n1 a show ?thesis by (intro conjI exI [of _ res])
qed

end
